theory Spec2Isabelle
  imports Main "HOL-Library.Sublist"
begin

section \<open>JavaScript values\<close>

text \<open>
  The fields of the records that \<^verbatim>\<open>YouTubeDownloader.jsx\<close> inspects are dynamically
  typed. They are modelled by the primitive values of JavaScript. Numbers are integers
  here: the component only tests them for truthiness and prints them. Equality of the
  datatype is the \<^verbatim>\<open>===\<close> of JavaScript on these values (and the equality of a
  \<^verbatim>\<open>Set\<close>).
\<close>

datatype jsval = Undefined | Null | Bool bool | Num int | Str string

text \<open>\<^verbatim>\<open>!!v\<close>\<close>

fun truthy :: "jsval \<Rightarrow> bool" where
  "truthy Undefined = False"
| "truthy Null = False"
| "truthy (Bool b) = b"
| "truthy (Num n) = (n \<noteq> 0)"
| "truthy (Str s) = (s \<noteq> [])"

text \<open>\<^verbatim>\<open>a || b\<close> and \<^verbatim>\<open>a ?? b\<close>\<close>

definition js_or :: "jsval \<Rightarrow> jsval \<Rightarrow> jsval" where
  "js_or a b = (if truthy a then a else b)"

definition nullish :: "jsval \<Rightarrow> jsval \<Rightarrow> jsval" where
  "nullish a b = (if a = Undefined \<or> a = Null then b else a)"

text \<open>\<^verbatim>\<open>String(v)\<close>, the conversion a template literal applies to each hole.\<close>

fun string_of_nat :: "nat \<Rightarrow> string" where
  "string_of_nat n =
     (if n < 10 then [''0123456789'' ! n]
      else string_of_nat (n div 10) @ [''0123456789'' ! (n mod 10)])"

declare string_of_nat.simps [simp del]

definition string_of_int :: "int \<Rightarrow> string" where
  "string_of_int i =
     (if i < 0 then CHR ''-'' # string_of_nat (nat (- i)) else string_of_nat (nat i))"

fun toStr :: "jsval \<Rightarrow> string" where
  "toStr Undefined = ''undefined''"
| "toStr Null = ''null''"
| "toStr (Bool b) = (if b then ''true'' else ''false'')"
| "toStr (Num n) = string_of_int n"
| "toStr (Str s) = s"

section \<open>Format entries and \<^verbatim>\<open>normalizeFormats\<close>\<close>

text \<open>
  One entry of \<^verbatim>\<open>videoData.formats\<close>, an object: the fields the component reads.
  A field that the object does not carry reads as \<open>Undefined\<close>. The field \<^verbatim>\<open>type\<close>
  is named \<open>ftype\<close>.
\<close>

record format =
  format_id :: jsval
  ftype :: jsval
  ext :: jsval
  qualityLabel :: jsval
  abr :: jsval
  height :: jsval
  vcodec :: jsval
  acodec :: jsval
  size :: jsval

text \<open>The value of a field that may hold an array of entries (\<^verbatim>\<open>formats\<close>).\<close>

datatype jsfield = Arr "format list" | Val jsval

fun truthy_field :: "jsfield \<Rightarrow> bool" where
  "truthy_field (Arr fs) = True"
| "truthy_field (Val v) = truthy v"

text \<open>Lines 41 and 42.\<close>

definition hasVideo :: "format \<Rightarrow> bool" where
  "hasVideo f = (ftype f = Str ''video'' \<or> truthy (height f) \<or> truthy (vcodec f))"

definition hasAudio :: "format \<Rightarrow> bool" where
  "hasAudio f = (ftype f = Str ''audio'' \<or> truthy (abr f) \<or> truthy (acodec f))"

text \<open>Lines 40 to 47: the function mapped over the list.\<close>

definition withType :: "format \<Rightarrow> format" where
  "withType f =
     f\<lparr>ftype :=
         (if hasVideo f \<and> \<not> hasAudio f then Str ''video''
          else if hasAudio f \<and> \<not> hasVideo f then Str ''audio''
          else js_or (ftype f) (Str ''video''))\<rparr>"

text \<open>Lines 50 to 52.\<close>

definition keyOf :: "format \<Rightarrow> jsval" where
  "keyOf f =
     nullish (format_id f)
       (Str (toStr (ftype f) @ ''|'' @ toStr (ext f) @ ''|''
             @ toStr (js_or (qualityLabel f) (Str [])) @ ''|''
             @ toStr (js_or (abr f) (Str [])) @ ''|''
             @ toStr (js_or (height f) (Str []))))"

text \<open>
  Lines 49 and 54 to 59: \<^verbatim>\<open>filter\<close> with the mutable set \<^verbatim>\<open>seen\<close>, which is
  threaded through the traversal.
\<close>

fun filterSeen :: "jsval set \<Rightarrow> format list \<Rightarrow> format list" where
  "filterSeen seen [] = []"
| "filterSeen seen (f # fs) =
     (let k = keyOf f in
      if k \<in> seen then filterSeen seen fs
      else f # filterSeen (insert k seen) fs)"

text \<open>Lines 38 to 60. A value that is not an array is replaced by the empty list.\<close>

definition normalizeFormats :: "jsfield \<Rightarrow> format list" where
  "normalizeFormats raw =
     (let list = (case raw of Arr fs \<Rightarrow> fs | Val v \<Rightarrow> []);
          withTypes = map withType list
      in filterSeen {} withTypes)"

text \<open>Lines 62 and 63, as functions of \<^verbatim>\<open>videoData?.formats\<close>.\<close>

definition videoFormats :: "jsfield \<Rightarrow> format list" where
  "videoFormats raw = filter (\<lambda>f. ftype f = Str ''video'') (normalizeFormats raw)"

definition audioFormats :: "jsfield \<Rightarrow> format list" where
  "audioFormats raw = filter (\<lambda>f. ftype f = Str ''audio'') (normalizeFormats raw)"

text \<open>An entry with no field at all, to build examples from.\<close>

definition emptyFormat :: format where
  "emptyFormat =
     \<lparr>format_id = Undefined, ftype = Undefined, ext = Undefined, qualityLabel = Undefined,
      abr = Undefined, height = Undefined, vcodec = Undefined, acodec = Undefined,
      size = Undefined\<rparr>"

section \<open>Component state and the outside world\<close>

text \<open>
  The object the info endpoint answers with (\<^verbatim>\<open>res.data\<close>, later \<^verbatim>\<open>videoData\<close>).
  Its field \<^verbatim>\<open>error\<close> is named \<open>data_error\<close>.
\<close>

record info =
  title :: jsval
  thumbnail :: jsval
  formats :: jsfield
  data_error :: jsval

text \<open>The object \<^verbatim>\<open>{}\<close>.\<close>

definition emptyInfo :: info where
  "emptyInfo =
     \<lparr>title = Undefined, thumbnail = Undefined, formats = Val Undefined,
      data_error = Undefined\<rparr>"

text \<open>
  What the component does to the outside world, in the order it happens: the call of
  \<^verbatim>\<open>axios.post\<close> (address and the \<^verbatim>\<open>url\<close> of its body), the call of
  \<^verbatim>\<open>fetch\<close> (its address), \<^verbatim>\<open>controller.abort()\<close> while the fetch is pending,
  \<^verbatim>\<open>clearTimeout\<close>, and the click on the invisible link (file name and size of the
  blob).
\<close>

datatype effect =
    Post string string
  | Fetch string
  | Abort
  | ClearTimeout
  | Click string nat

text \<open>
  The six state variables of lines 30 to 35 (\<^verbatim>\<open>null\<close> is \<open>None\<close>), and the effects so
  far. \<^verbatim>\<open>downloadingMap\<close> is an object used as a dictionary: its keys are strings.
\<close>

record state =
  url :: string
  videoData :: "info option"
  loading :: bool
  tab :: nat
  downloadingMap :: "string \<rightharpoonup> bool"
  error :: string
  effects :: "effect list"

text \<open>
  The module constant \<^verbatim>\<open>API_BASE\<close> and the library function the code calls. The
  function gives \<open>None\<close> where \<^verbatim>\<open>encodeURIComponent\<close> throws a \<^verbatim>\<open>URIError\<close>: on
  a string with an unpaired surrogate.
\<close>

record env =
  API_BASE :: jsval
  encodeURIComponent :: "string \<Rightarrow> string option"

text \<open>
  A thrown value, with the properties the handlers read: \<^verbatim>\<open>name\<close>, \<^verbatim>\<open>message\<close>,
  \<^verbatim>\<open>code\<close> and \<^verbatim>\<open>response?.data?.error\<close>.
\<close>

record js_error =
  err_name :: string
  err_message :: string
  err_code :: jsval
  err_response_error :: jsval

text \<open>\<^verbatim>\<open>new Error(msg)\<close>\<close>

definition newError :: "string \<Rightarrow> js_error" where
  "newError msg =
     \<lparr>err_name = ''Error'', err_message = msg, err_code = Undefined,
      err_response_error = Undefined\<rparr>"

text \<open>The error of reading a property of \<^verbatim>\<open>null\<close> (the text is V8's).\<close>

definition nullPropertyError :: js_error where
  "nullPropertyError =
     \<lparr>err_name = ''TypeError'',
      err_message = ''Cannot read properties of null (reading '' @ [CHR 0x27] @ ''error''
                    @ [CHR 0x27] @ '')'',
      err_code = Undefined, err_response_error = Undefined\<rparr>"

text \<open>The error a fetch rejects with when its signal is aborted.\<close>

definition abortError :: js_error where
  "abortError =
     \<lparr>err_name = ''AbortError'', err_message = ''The user aborted a request.'',
      err_code = Undefined, err_response_error = Undefined\<rparr>"

text \<open>The error \<^verbatim>\<open>encodeURIComponent\<close> throws (the text is V8's).\<close>

definition uriError :: js_error where
  "uriError =
     \<lparr>err_name = ''URIError'', err_message = ''URI malformed'', err_code = Undefined,
      err_response_error = Undefined\<rparr>"

text \<open>\<^verbatim>\<open>hay.includes(needle)\<close> and \<^verbatim>\<open>s.trim()\<close> (ASCII white space).\<close>

fun startsWith :: "string \<Rightarrow> string \<Rightarrow> bool" where
  "startsWith hay [] = True"
| "startsWith [] (c # cs) = False"
| "startsWith (h # hs) (c # cs) = (h = c \<and> startsWith hs cs)"

fun js_includes :: "string \<Rightarrow> string \<Rightarrow> bool" where
  "js_includes [] needle = startsWith [] needle"
| "js_includes (h # hs) needle = (startsWith (h # hs) needle \<or> js_includes hs needle)"

definition whiteSpace :: "char \<Rightarrow> bool" where
  "whiteSpace c = (c \<in> set [CHR '' '', CHR 0x09, CHR 0x0A, CHR 0x0B, CHR 0x0C, CHR 0x0D])"

definition trim :: "string \<Rightarrow> string" where
  "trim s = rev (dropWhile whiteSpace (rev (dropWhile whiteSpace s)))"

section \<open>\<^verbatim>\<open>handleFetch\<close>\<close>

text \<open>How the awaited \<^verbatim>\<open>axios.post\<close> settles (\<^verbatim>\<open>res.data\<close> may be \<^verbatim>\<open>null\<close>).\<close>

datatype axios_outcome = Resolved "info option" | RejectedWith js_error

text \<open>Lines 82 to 88: the value stored, or the error thrown.\<close>

definition handleFetch_try :: "axios_outcome \<Rightarrow> js_error + info" where
  "handleFetch_try out =
     (case out of
        RejectedWith e \<Rightarrow> Inl e
      | Resolved None \<Rightarrow> Inl nullPropertyError
      | Resolved (Some d) \<Rightarrow>
          if truthy_field (formats d) then Inr d
          else if truthy (data_error d) then Inl (newError (toStr (data_error d)))
          else Inl (newError ''No video data received from server''))"

text \<open>Lines 92 to 101.\<close>

definition errorMessage :: "js_error \<Rightarrow> string" where
  "errorMessage e =
     ''Failed to fetch video info. '' @
     (if err_code e = Str ''ECONNABORTED'' then ''Request timeout. Please try again.''
      else if truthy (err_response_error e) then toStr (err_response_error e)
      else if js_includes (err_message e) ''Network Error''
        then ''Cannot connect to server. Check your internet connection.''
      else ''Please check the URL and try again.'')"

text \<open>Lines 66 to 108, given how the request settles.\<close>

definition handleFetch :: "env \<Rightarrow> axios_outcome \<Rightarrow> state \<Rightarrow> state" where
  "handleFetch ev out s =
     (if trim (url s) = [] then s
      else
        let s1 = s\<lparr>loading := True, videoData := None, error := [],
                   effects := effects s @ [Post (toStr (API_BASE ev) @ ''/api/info'') (url s)]\<rparr>;
            s2 = (case handleFetch_try out of
                    Inr d \<Rightarrow> s1\<lparr>videoData := Some d\<rparr>
                  | Inl e \<Rightarrow> s1\<lparr>error := errorMessage e, videoData := Some emptyInfo\<rparr>)
        in s2\<lparr>loading := False\<rparr>)"

section \<open>\<^verbatim>\<open>handleDownload\<close> and \<^verbatim>\<open>DownloadCell\<close>\<close>

text \<open>Line 116. As a key of \<^verbatim>\<open>downloadingMap\<close> the value is converted to a string.\<close>

definition handleDownload_id :: "format \<Rightarrow> jsval" where
  "handleDownload_id f =
     js_or (format_id f)
       (Str (toStr (ftype f) @ ''-'' @ toStr (ext f) @ ''-''
             @ toStr (js_or (qualityLabel f) (Str []))))"

text \<open>\<^verbatim>\<open>videoData?.title || "video"\<close>\<close>

definition titleOr :: "info option \<Rightarrow> string" where
  "titleOr vd =
     toStr (js_or (case vd of None \<Rightarrow> Undefined | Some d \<Rightarrow> title d) (Str ''video''))"

text \<open>
  Lines 123 to 125: the address, or the \<^verbatim>\<open>URIError\<close> that one of the three calls of
  \<^verbatim>\<open>encodeURIComponent\<close> throws.
\<close>

definition downloadUrl :: "env \<Rightarrow> format \<Rightarrow> state \<Rightarrow> js_error + string" where
  "downloadUrl ev f s =
     (case encodeURIComponent ev (url s) of
        None \<Rightarrow> Inl uriError
      | Some u \<Rightarrow>
          (case encodeURIComponent ev (titleOr (videoData s)) of
             None \<Rightarrow> Inl uriError
           | Some t \<Rightarrow>
               (case encodeURIComponent ev (toStr (ftype f)) of
                  None \<Rightarrow> Inl uriError
                | Some ty \<Rightarrow>
                    Inr (toStr (API_BASE ev) @ ''/api/download?url='' @ u
                         @ ''&format_id='' @ toStr (nullish (format_id f) (Str []))
                         @ ''&title='' @ t @ ''&type='' @ ty))))"

text \<open>
  Lines 116 to 136, up to the first \<^verbatim>\<open>await\<close>: the busy flag is set and the message
  cleared; then, inside \<^verbatim>\<open>try\<close>, the address is built and \<^verbatim>\<open>fetch\<close> is called
  with it. The result is the state and the error thrown, if building the address threw:
  then \<^verbatim>\<open>fetch\<close> is not reached.
\<close>

definition handleDownload_begin :: "env \<Rightarrow> format \<Rightarrow> state \<Rightarrow> state \<times> js_error option" where
  "handleDownload_begin ev f s =
     (let id = handleDownload_id f;
          s1 = s\<lparr>downloadingMap := (downloadingMap s)(toStr id \<mapsto> True), error := []\<rparr>
      in case downloadUrl ev f s of
           Inl e \<Rightarrow> (s1, Some e)
         | Inr u \<Rightarrow> (s1\<lparr>effects := effects s1 @ [Fetch u]\<rparr>, None))"

text \<open>The response of \<^verbatim>\<open>fetch\<close>; \<^verbatim>\<open>response.ok\<close> is a status from 200 to 299.\<close>

record response =
  status :: nat
  statusText :: string

definition ok :: "response \<Rightarrow> bool" where
  "ok r = (200 \<le> status r \<and> status r \<le> 299)"

text \<open>
  What the two awaits of \<^verbatim>\<open>handleDownload\<close> meet: the timer of line 131 fires while
  the fetch is pending, or the fetch rejects by itself before that, or it resolves before
  that; then \<^verbatim>\<open>response.blob()\<close> resolves with a blob of some size, or rejects, or
  stays pending for ever. (After a fetch that rejected by itself the timer is not cleared
  and fires later, when there is nothing left to abort: that late call is not recorded.)
\<close>

datatype blob_outcome = BlobResolved nat | BlobRejected js_error | BlobPending

datatype fetch_outcome =
    TimerFired
  | FetchRejected js_error
  | FetchResolved response blob_outcome

text \<open>How a \<^verbatim>\<open>try\<close> block ends: at its end, by a throw, or never.\<close>

datatype try_result = Completed | Thrown js_error | Stuck

text \<open>
  Lines 131 to 166: the body of \<^verbatim>\<open>try\<close> after \<^verbatim>\<open>fetch\<close> was called. The result
  is the state and how the block ends. \<open>c\<close> is the state the handler was called in (its
  closure holds the title of that moment).
\<close>

definition handleDownload_try ::
    "state \<Rightarrow> format \<Rightarrow> fetch_outcome \<Rightarrow> state \<Rightarrow> state \<times> try_result" where
  "handleDownload_try c f out s =
     (case out of
        TimerFired \<Rightarrow> (s\<lparr>effects := effects s @ [Abort]\<rparr>, Thrown abortError)
      | FetchRejected e \<Rightarrow> (s, Thrown e)
      | FetchResolved r b \<Rightarrow>
          let s1 = s\<lparr>effects := effects s @ [ClearTimeout]\<rparr> in
          if \<not> ok r then
            (s1, Thrown (newError (''Server returned '' @ string_of_nat (status r) @ '': ''
                                   @ statusText r)))
          else
            (case b of
               BlobPending \<Rightarrow> (s1, Stuck)
             | BlobRejected e \<Rightarrow> (s1, Thrown e)
             | BlobResolved n \<Rightarrow>
                 if n = 0 then (s1, Thrown (newError ''Received empty file from server''))
                 else
                   let ext = (if ftype f = Str ''audio'' then ''mp3'' else ''mp4'');
                       filename = titleOr (videoData c) @ ''.'' @ ext
                   in (s1\<lparr>effects := effects s1 @ [Click filename n]\<rparr>, Completed)))"

text \<open>Lines 168 to 174: \<^verbatim>\<open>catch\<close>.\<close>

definition handleDownload_catch :: "js_error \<Rightarrow> state \<Rightarrow> state" where
  "handleDownload_catch e s =
     (if err_name e = ''AbortError''
      then s\<lparr>error := ''Download timeout. The video might be too large.''\<rparr>
      else s\<lparr>error := ''Download failed: '' @ err_message e\<rparr>)"

text \<open>Lines 175 to 177: \<^verbatim>\<open>finally\<close>.\<close>

definition handleDownload_finally :: "format \<Rightarrow> state \<Rightarrow> state" where
  "handleDownload_finally f s =
     (let id = handleDownload_id f
      in s\<lparr>downloadingMap := (downloadingMap s)(toStr id \<mapsto> False)\<rparr>)"

text \<open>
  What becomes of a call: it settles in a state, or it stays pending for ever and the
  component stays in a state.
\<close>

datatype call_result = Settled state | Pending state

fun state_of :: "call_result \<Rightarrow> state" where
  "state_of (Settled s) = s"
| "state_of (Pending s) = s"

fun settled :: "call_result \<Rightarrow> bool" where
  "settled (Settled s) = True"
| "settled (Pending s) = False"

text \<open>
  Lines 138 to 177, given what the awaits meet: the rest of \<^verbatim>\<open>try\<close>, then
  \<^verbatim>\<open>catch\<close> and \<^verbatim>\<open>finally\<close>, which a block that never ends does not reach.
\<close>

definition handleDownload_settle ::
    "state \<Rightarrow> format \<Rightarrow> fetch_outcome \<Rightarrow> state \<Rightarrow> call_result" where
  "handleDownload_settle c f out s =
     (let (s1, res) = handleDownload_try c f out s
      in case res of
           Stuck \<Rightarrow> Pending s1
         | Completed \<Rightarrow> Settled (handleDownload_finally f s1)
         | Thrown e \<Rightarrow> Settled (handleDownload_finally f (handleDownload_catch e s1)))"

text \<open>
  Lines 115 to 178 with nothing else happening in between. When building the address
  throws, the call goes to \<^verbatim>\<open>catch\<close> and \<^verbatim>\<open>finally\<close> at once.
\<close>

definition handleDownload :: "env \<Rightarrow> format \<Rightarrow> fetch_outcome \<Rightarrow> state \<Rightarrow> call_result" where
  "handleDownload ev f out s =
     (case handleDownload_begin ev f s of
        (s1, Some e) \<Rightarrow> Settled (handleDownload_finally f (handleDownload_catch e s1))
      | (s1, None) \<Rightarrow> handleDownload_settle s f out s1)"

text \<open>
  The awaits of a call do not settle in one case: the fetch resolves with a status of
  success and the blob stays pending.
\<close>

definition stalls :: "fetch_outcome \<Rightarrow> bool" where
  "stalls out =
     (case out of
        TimerFired \<Rightarrow> False
      | FetchRejected e \<Rightarrow> False
      | FetchResolved r b \<Rightarrow> ok r \<and> b = BlobPending)"

text \<open>
  The names that every plain object, such as \<^verbatim>\<open>downloadingMap\<close>, inherits from
  \<^verbatim>\<open>Object.prototype\<close>. What it inherits under them is a function or an object, which
  is truthy.
\<close>

definition objectPrototype :: "string list" where
  "objectPrototype =
     [''constructor'', ''hasOwnProperty'', ''isPrototypeOf'', ''propertyIsEnumerable'',
      ''toLocaleString'', ''toString'', ''valueOf'', ''__proto__'', ''__defineGetter__'',
      ''__defineSetter__'', ''__lookupGetter__'', ''__lookupSetter__'']"

text \<open>
  Lines 181 to 204: what the cell of a row shows. The button is the only caller of
  \<^verbatim>\<open>handleDownload\<close>; its argument says whether it is disabled.
  \<^verbatim>\<open>downloadingMap[id]\<close> is the flag the component has written under the key, or else
  what the object inherits under it.
\<close>

datatype cell = Spinner | Button bool

definition DownloadCell :: "format \<Rightarrow> (string \<rightharpoonup> bool) \<Rightarrow> info option \<Rightarrow> cell" where
  "DownloadCell f dmap vd =
     (let id = js_or (format_id f)
                 (Str (toStr (ftype f) @ ''-'' @ toStr (ext f) @ ''-''
                       @ toStr (js_or (qualityLabel f) (Str []))));
          isDownloading = (case dmap (toStr id) of
                             Some b \<Rightarrow> b
                           | None \<Rightarrow> toStr id \<in> set objectPrototype)
      in if isDownloading then Spinner else Button (vd = None))"

text \<open>
  The race of lines 130 to 138, with times in milliseconds after \<^verbatim>\<open>fetch\<close> was
  called: what the server does (never answers, fails at some time, or answers at some
  time and then delivers the body at a later time, breaks it at a later time or never
  ends it), and what the two awaits meet of it. The timer fires at 120000 unless the
  fetch has settled before; when the fetch has resolved before, line 138 clears the
  timer.
\<close>

datatype body_run = BodyDone nat nat | BodyBroken nat js_error | BodyNever

datatype request_run =
    NoResponse
  | NetworkFails nat js_error
  | Responds nat response body_run

definition deadline :: nat where
  "deadline = 120000"

definition await_outcome :: "request_run \<Rightarrow> fetch_outcome" where
  "await_outcome run =
     (case run of
        NoResponse \<Rightarrow> TimerFired
      | NetworkFails t e \<Rightarrow> if t < deadline then FetchRejected e else TimerFired
      | Responds t r b \<Rightarrow>
          if t < deadline
          then FetchResolved r
                 (case b of
                    BodyDone tb n \<Rightarrow> BlobResolved n
                  | BodyBroken tb e \<Rightarrow> BlobRejected e
                  | BodyNever \<Rightarrow> BlobPending)
          else TimerFired)"

section \<open>The specification's readings\<close>

text \<open>
  The classification as the specification words it: the marker sets are \<^verbatim>\<open>height\<close>,
  \<^verbatim>\<open>vcodec\<close> and \<^verbatim>\<open>abr\<close>, \<^verbatim>\<open>acodec\<close> only, and the declared type is the fallback.
  It is compared with \<open>withType\<close> below.
\<close>

definition videoMarkers :: "format \<Rightarrow> bool" where
  "videoMarkers f = (truthy (height f) \<or> truthy (vcodec f))"

definition audioMarkers :: "format \<Rightarrow> bool" where
  "audioMarkers f = (truthy (abr f) \<or> truthy (acodec f))"

definition classify_by_markers :: "format \<Rightarrow> jsval" where
  "classify_by_markers f =
     (if videoMarkers f \<and> \<not> audioMarkers f then Str ''video''
      else if audioMarkers f \<and> \<not> videoMarkers f then Str ''audio''
      else js_or (ftype f) (Str ''video''))"

text \<open>
  Two moments of a request: when the promise of \<^verbatim>\<open>fetch\<close> settles, and when the
  request is over as a whole, payload included (the specification's reading of its
  lifetime). \<open>None\<close> is never. A moment is past the deadline when it is not before it.
\<close>

definition fetch_settles_at :: "request_run \<Rightarrow> nat option" where
  "fetch_settles_at run =
     (case run of NoResponse \<Rightarrow> None | NetworkFails t e \<Rightarrow> Some t | Responds t r b \<Rightarrow> Some t)"

definition request_ends_at :: "request_run \<Rightarrow> nat option" where
  "request_ends_at run =
     (case run of
        NoResponse \<Rightarrow> None
      | NetworkFails t e \<Rightarrow> Some t
      | Responds t r b \<Rightarrow>
          (case b of
             BodyDone tb n \<Rightarrow> Some tb
           | BodyBroken tb e \<Rightarrow> Some tb
           | BodyNever \<Rightarrow> None))"

definition past_deadline :: "nat option \<Rightarrow> bool" where
  "past_deadline moment = (case moment of None \<Rightarrow> True | Some t \<Rightarrow> deadline \<le> t)"

section \<open>Example inputs\<close>

text \<open>
  The three bytes that stand for the unpaired surrogate U+D800, and the encoder of the
  examples: on that string \<^verbatim>\<open>encodeURIComponent\<close> throws, and on the other strings of
  the examples (letters and digits) it changes nothing.
\<close>

definition exLoneSurrogate :: string where
  "exLoneSurrogate = [CHR 0xED, CHR 0xA0, CHR 0x80]"

definition exEnv :: env where
  "exEnv =
     \<lparr>API_BASE = Str ''https://api.example.com'',
      encodeURIComponent = (\<lambda>s. if s = exLoneSurrogate then None else Some s)\<rparr>"

definition exState :: state where
  "exState =
     \<lparr>url = ''dQw4w9WgXcQ'', videoData = None, loading = False, tab = 0,
      downloadingMap = Map.empty, error = [], effects = []\<rparr>"

definition exBusy :: state where
  "exBusy = exState\<lparr>downloadingMap := [''137'' \<mapsto> True]\<rparr>"

definition exBadUrl :: state where
  "exBadUrl = exState\<lparr>url := exLoneSurrogate\<rparr>"

definition ex137 :: format where
  "ex137 = emptyFormat\<lparr>format_id := Str ''137'', ext := Str ''mp4'', height := Num 720\<rparr>"

definition ex140 :: format where
  "ex140 = emptyFormat\<lparr>format_id := Str ''140'', ext := Str ''m4a'', abr := Num 128\<rparr>"

definition ex137b :: format where
  "ex137b = emptyFormat\<lparr>format_id := Str ''137'', ext := Str ''webm'', height := Num 1080\<rparr>"

definition exNoId :: format where
  "exNoId =
     emptyFormat\<lparr>ftype := Str ''video'', ext := Str ''mp4'', qualityLabel := Str ''720p'',
                 height := Num 720\<rparr>"

definition exImage :: format where
  "exImage = emptyFormat\<lparr>ftype := Str ''image'', ext := Str ''jpg''\<rparr>"

definition exDeclaredVideo :: format where
  "exDeclaredVideo = emptyFormat\<lparr>ftype := Str ''video'', abr := Num 128\<rparr>"

definition exUnavailable :: info where
  "exUnavailable = emptyInfo\<lparr>data_error := Str ''Video unavailable''\<rparr>"

definition exBoth :: info where
  "exBoth =
     emptyInfo\<lparr>title := Str ''clip'', formats := Arr [ex137],
               data_error := Str ''Video unavailable''\<rparr>"

definition exOK :: response where
  "exOK = \<lparr>status = 200, statusText = ''OK''\<rparr>"

definition exNotFound :: response where
  "exNotFound = \<lparr>status = 404, statusText = ''Not Found''\<rparr>"

definition exSlowBody :: request_run where
  "exSlowBody = Responds 1000 exOK (BodyDone 500000 1000000)"

definition exStalled :: request_run where
  "exStalled = Responds 1000 exOK BodyNever"

section \<open>Auxiliary facts\<close>

lemmas ex_defs = exEnv_def exState_def exBusy_def ex137_def ex140_def ex137b_def exNoId_def
  exImage_def exDeclaredVideo_def exUnavailable_def exBoth_def exOK_def exNotFound_def
  exSlowBody_def exStalled_def exBadUrl_def exLoneSurrogate_def emptyFormat_def emptyInfo_def

lemmas classify_defs = withType_def hasVideo_def hasAudio_def js_or_def

lemmas download_defs = handleDownload_def handleDownload_begin_def handleDownload_settle_def
  handleDownload_try_def handleDownload_catch_def handleDownload_finally_def
  handleDownload_id_def downloadUrl_def titleOr_def nullish_def ok_def newError_def
  abortError_def uriError_def

lemma filterSeen_keys_fresh: "f \<in> set (filterSeen seen fs) \<Longrightarrow> keyOf f \<notin> seen"
  by (induction fs arbitrary: seen) (auto simp: Let_def split: if_splits)

lemma filterSeen_distinct_keys: "distinct (map keyOf (filterSeen seen fs))"
  by (induction fs arbitrary: seen) (auto simp: Let_def dest: filterSeen_keys_fresh)

lemma normalizeFormats_distinct_keys: "distinct (map keyOf (normalizeFormats raw))"
  by (simp add: normalizeFormats_def filterSeen_distinct_keys)

lemma normalizeFormats_distinct: "distinct (normalizeFormats raw)"
  using normalizeFormats_distinct_keys [of raw]
  by (rule distinct_map [THEN iffD1, THEN conjunct1])

text \<open>
  The entries that pass the filter are those at the positions whose key is neither in the
  initial set nor carried by an earlier position, in the order of the list.
\<close>

lemma filterSeen_nths:
  "filterSeen seen fs =
     nths fs {i. i < length fs \<and> keyOf (fs ! i) \<notin> seen
                 \<and> (\<forall>j<i. keyOf (fs ! j) \<noteq> keyOf (fs ! i))}"
proof (induction fs arbitrary: seen)
  case Nil
  show ?case by simp
next
  case (Cons f fs)
  let ?A = "{i. i < length (f # fs) \<and> keyOf ((f # fs) ! i) \<notin> seen
              \<and> (\<forall>j<i. keyOf ((f # fs) ! j) \<noteq> keyOf ((f # fs) ! i))}"
  show ?case
  proof (cases "keyOf f \<in> seen")
    case True
    have "{j. Suc j \<in> ?A} =
          {i. i < length fs \<and> keyOf (fs ! i) \<notin> seen
              \<and> (\<forall>j<i. keyOf (fs ! j) \<noteq> keyOf (fs ! i))}"
      using True by (auto simp: All_less_Suc2)
    then show ?thesis
      using True Cons.IH [of seen] by (simp add: nths_Cons)
  next
    case False
    have "{j. Suc j \<in> ?A} =
          {i. i < length fs \<and> keyOf (fs ! i) \<notin> insert (keyOf f) seen
              \<and> (\<forall>j<i. keyOf (fs ! j) \<noteq> keyOf (fs ! i))}"
      by (auto simp: All_less_Suc2)
    then show ?thesis
      using False Cons.IH [of "insert (keyOf f) seen"] by (simp add: nths_Cons)
  qed
qed

lemma ex_normalized:
  "normalizeFormats (Arr [ex137, ex140, ex137b]) = [withType ex137, withType ex140]"
  by (simp add: normalizeFormats_def keyOf_def nullish_def classify_defs ex_defs)

lemma ex_normalized_image:
  "normalizeFormats (Arr [ex137, ex140, exImage]) = [withType ex137, withType ex140, exImage]"
  by (simp add: normalizeFormats_def keyOf_def nullish_def classify_defs ex_defs)

lemma ex137_key: "toStr (handleDownload_id (withType ex137)) = ''137''"
  by (simp add: handleDownload_id_def classify_defs ex_defs)

lemma downloadUrl_throws: "downloadUrl ev f s = Inl e \<Longrightarrow> e = uriError"
  by (auto simp: downloadUrl_def split: option.splits)

lemma ex137_url:
  "downloadUrl exEnv (withType ex137) exState =
     Inr ''https://api.example.com/api/download?url=dQw4w9WgXcQ&format_id=137&title=video&type=video''"
  by (simp add: downloadUrl_def titleOr_def nullish_def classify_defs ex_defs)

lemma exBad_url: "downloadUrl exEnv (withType ex137) exBadUrl = Inl uriError"
  by (simp add: downloadUrl_def ex_defs)

lemma exState_url: "trim (url exState) \<noteq> []"
  by (simp add: exState_def trim_def whiteSpace_def)

lemma errorMessage_nonempty: "errorMessage e \<noteq> []"
  by (simp add: errorMessage_def)

section \<open>Claims about \<^verbatim>\<open>handleDownload\<close> and the busy flags\<close>

text \<open>
  Claim C1 as stated fails. \<^verbatim>\<open>handleDownload\<close> does not read \<^verbatim>\<open>downloadingMap\<close>
  before it acts: called for a key whose flag is already \<^verbatim>\<open>true\<close> it changes the state
  and calls \<^verbatim>\<open>fetch\<close>, and two calls in a row, before anything settles, call
  \<^verbatim>\<open>fetch\<close> twice.
\<close>

theorem handleDownload_no_guard_counterexample:
  "downloadingMap exBusy (toStr (handleDownload_id (withType ex137))) = Some True
   \<and> fst (handleDownload_begin exEnv (withType ex137) exBusy) \<noteq> exBusy
   \<and> effects (fst (handleDownload_begin exEnv (withType ex137) exBusy)) =
       [Fetch ''https://api.example.com/api/download?url=dQw4w9WgXcQ&format_id=137&title=video&type=video'']
   \<and> effects (fst (handleDownload_begin exEnv (withType ex137)
        (fst (handleDownload_begin exEnv (withType ex137) exState)))) =
       [Fetch ''https://api.example.com/api/download?url=dQw4w9WgXcQ&format_id=137&title=video&type=video'',
        Fetch ''https://api.example.com/api/download?url=dQw4w9WgXcQ&format_id=137&title=video&type=video'']"
  by (simp add: ex_defs download_defs classify_defs)

text \<open>
  Claim C1, amended: \<^verbatim>\<open>handleDownload\<close> has no guard of its own. Every call, whatever
  the flag of its key, sets the flag of the key and clears the message. If the address
  can be built, the call then calls \<^verbatim>\<open>fetch\<close> exactly once before its first
  \<^verbatim>\<open>await\<close>; if building the address throws (\<^verbatim>\<open>encodeURIComponent\<close> on an unpaired
  surrogate), the call makes no request at all and settles at once. The guard against a
  second download is in \<^verbatim>\<open>DownloadCell\<close>: while the flag of the key is set, the cell
  shows the spinner and not the button that calls \<^verbatim>\<open>handleDownload\<close>.
\<close>

theorem handleDownload_begin_unguarded:
  "downloadingMap (fst (handleDownload_begin ev f s)) (toStr (handleDownload_id f)) = Some True
   \<and> error (fst (handleDownload_begin ev f s)) = []
   \<and> (downloadUrl ev f s = Inr u \<longrightarrow>
        effects (fst (handleDownload_begin ev f s)) = effects s @ [Fetch u]
        \<and> snd (handleDownload_begin ev f s) = None)
   \<and> (downloadUrl ev f s = Inl e \<longrightarrow>
        effects (fst (handleDownload_begin ev f s)) = effects s
        \<and> snd (handleDownload_begin ev f s) = Some e
        \<and> settled (handleDownload ev f out s)
        \<and> effects (state_of (handleDownload ev f out s)) = effects s)
   \<and> (downloadingMap s (toStr (handleDownload_id f)) = Some True \<longrightarrow>
        DownloadCell f (downloadingMap s) (videoData s) = Spinner)"
  by (cases "downloadUrl ev f s")
    (simp_all add: handleDownload_begin_def handleDownload_def handleDownload_finally_def
      handleDownload_catch_def DownloadCell_def handleDownload_id_def Let_def)

text \<open>
  The amended claim at a state whose flag for \<^verbatim>\<open>"137"\<close> is set, and at an address
  that cannot be encoded.
\<close>

theorem handleDownload_begin_unguarded_witness:
  "downloadingMap exBusy ''137'' = Some True
   \<and> effects (fst (handleDownload_begin exEnv (withType ex137) exBusy)) =
     [Fetch ''https://api.example.com/api/download?url=dQw4w9WgXcQ&format_id=137&title=video&type=video'']
   \<and> DownloadCell (withType ex137) (downloadingMap exBusy) (videoData exBusy) = Spinner
   \<and> downloadUrl exEnv (withType ex137) exBadUrl = Inl uriError
   \<and> effects (state_of (handleDownload exEnv (withType ex137) TimerFired exBadUrl)) = []"
proof -
  have b: "downloadingMap exBusy ''137'' = Some True"
    by (simp add: ex_defs)
  have u: "downloadUrl exEnv (withType ex137) exBusy =
      Inr ''https://api.example.com/api/download?url=dQw4w9WgXcQ&format_id=137&title=video&type=video''"
    by (simp add: ex_defs download_defs classify_defs)
  from handleDownload_begin_unguarded [where ev = exEnv and f = "withType ex137" and s = exBusy]
    u b
  have 1: "effects (fst (handleDownload_begin exEnv (withType ex137) exBusy)) =
     [Fetch ''https://api.example.com/api/download?url=dQw4w9WgXcQ&format_id=137&title=video&type=video'']
   \<and> DownloadCell (withType ex137) (downloadingMap exBusy) (videoData exBusy) = Spinner"
    by (simp add: ex137_key) (simp add: ex_defs)
  from handleDownload_begin_unguarded [where ev = exEnv and f = "withType ex137"
      and s = exBadUrl and e = uriError and out = TimerFired] exBad_url
  have 2: "effects (state_of (handleDownload exEnv (withType ex137) TimerFired exBadUrl)) = []"
    by (simp add: ex_defs)
  from b 1 exBad_url 2 show ?thesis by simp
qed

text \<open>
  Claim C7 as stated fails. Line 138 clears the timer as soon as the fetch has resolved,
  and nothing bounds the reading of the blob at line 145: when the blob never comes, the
  call never reaches \<^verbatim>\<open>finally\<close> and the flag of its key stays \<^verbatim>\<open>true\<close>.
\<close>

theorem handleDownload_stalled_counterexample:
  "\<not> settled (handleDownload exEnv (withType ex137) (await_outcome exStalled) exState)
   \<and> downloadingMap
        (state_of (handleDownload exEnv (withType ex137) (await_outcome exStalled) exState))
        ''137'' = Some True"
  by (simp add: ex_defs download_defs classify_defs await_outcome_def deadline_def)

text \<open>
  Claim C7, amended: whenever a call of \<^verbatim>\<open>handleDownload\<close> settles (the address
  cannot be built, the timer fires and the request is aborted, the fetch rejects, the
  status is not a success, the blob is empty, reading the blob fails, or the file is
  saved), \<^verbatim>\<open>finally\<close> leaves the flag of the task's key at \<^verbatim>\<open>false\<close>. A call fails
  to settle in exactly one case: \<^verbatim>\<open>fetch\<close> was called and resolved with a status of
  success, and the blob stays pending; the flag of the key then stays \<^verbatim>\<open>true\<close>. The
  same holds for the part of the call after \<^verbatim>\<open>fetch\<close>, from any state.
\<close>

theorem handleDownload_finally_clears_flag:
  "settled (handleDownload ev f out s) = (\<not> (stalls out \<and> \<not> isl (downloadUrl ev f s)))
   \<and> downloadingMap (state_of (handleDownload ev f out s)) (toStr (handleDownload_id f)) =
       Some (\<not> settled (handleDownload ev f out s))
   \<and> settled (handleDownload_settle c f out s) = (\<not> stalls out)
   \<and> (settled (handleDownload_settle c f out s) \<longrightarrow>
        downloadingMap (state_of (handleDownload_settle c f out s)) (toStr (handleDownload_id f))
          = Some False)"
  by (cases out; cases "downloadUrl ev f s")
    (auto simp: handleDownload_def handleDownload_begin_def handleDownload_settle_def
      handleDownload_try_def handleDownload_finally_def handleDownload_catch_def stalls_def
      Let_def split: blob_outcome.splits)

text \<open>Each way of settling once, and the stalled blob, for the entry \<^verbatim>\<open>"137"\<close>.\<close>

theorem handleDownload_finally_clears_flag_witness:
  "downloadingMap (state_of (handleDownload exEnv (withType ex137) TimerFired exState)) ''137''
     = Some False
   \<and> downloadingMap (state_of (handleDownload exEnv (withType ex137)
        (FetchRejected (newError ''Failed to fetch'')) exState)) ''137'' = Some False
   \<and> downloadingMap (state_of (handleDownload exEnv (withType ex137)
        (FetchResolved exNotFound BlobPending) exState)) ''137'' = Some False
   \<and> downloadingMap (state_of (handleDownload exEnv (withType ex137)
        (FetchResolved exOK (BlobResolved 0)) exState)) ''137'' = Some False
   \<and> downloadingMap (state_of (handleDownload exEnv (withType ex137)
        (FetchResolved exOK (BlobRejected (newError ''network error''))) exState)) ''137''
       = Some False
   \<and> downloadingMap (state_of (handleDownload exEnv (withType ex137)
        (FetchResolved exOK (BlobResolved 1000000)) exState)) ''137'' = Some False
   \<and> downloadingMap (state_of (handleDownload exEnv (withType ex137) TimerFired exBadUrl))
        ''137'' = Some False
   \<and> downloadingMap (state_of (handleDownload exEnv (withType ex137)
        (FetchResolved exOK BlobPending) exState)) ''137'' = Some True"
  using handleDownload_finally_clears_flag [where ev = exEnv and f = "withType ex137"
      and s = exState]
    handleDownload_finally_clears_flag [where ev = exEnv and f = "withType ex137"
      and s = exBadUrl and out = TimerFired]
  by (simp add: ex137_key ex137_url exBad_url stalls_def exOK_def exNotFound_def ok_def)

text \<open>
  Claim C9 as stated fails. The timer is cleared as soon as the fetch resolves (line 138),
  before the blob is read. A request answered after one second whose payload needs five
  hundred seconds outlasts the deadline, and is neither aborted nor reported as a
  timeout: the file is saved.
\<close>

theorem deadline_counterexample:
  "past_deadline (request_ends_at exSlowBody)
   \<and> handleDownload exEnv (withType ex137) (await_outcome exSlowBody) exState =
       Settled
         (exState\<lparr>downloadingMap := [''137'' \<mapsto> False],
            effects :=
              [Fetch ''https://api.example.com/api/download?url=dQw4w9WgXcQ&format_id=137&title=video&type=video'',
               ClearTimeout, Click ''video.mp4'' 1000000]\<rparr>)"
  by (simp add: ex_defs download_defs classify_defs past_deadline_def request_ends_at_def
      await_outcome_def deadline_def)

text \<open>
  Claim C9, amended, for a call whose address can be built, so that \<^verbatim>\<open>fetch\<close> is
  called. If the fetch has not settled when 120 seconds have passed, the request is
  aborted, the call settles, the timeout message is shown and the flag of the task
  returns to \<^verbatim>\<open>false\<close>. If the response arrives before, the timer is cleared and the
  call aborts nothing, whatever the payload does and however long it takes: the effects
  of the call are the request, the clearing of the timer and, for a payload that arrives
  with a status of success and is not empty, the saving of the file. A payload that
  arrives, at whatever time, never gives the timeout message: the call settles with no
  message when the file is saved, and else with a message that begins with
  \<^verbatim>\<open>Download failed:\<close>. With a status of success and a payload that never ends the
  call never settles and the flag stays \<^verbatim>\<open>true\<close>. So the deadline covers the time up
  to the response, not the reading of the payload.
\<close>

theorem deadline_until_response:
  "downloadUrl ev f s = Inr u \<Longrightarrow>
   (past_deadline (fetch_settles_at run) \<longrightarrow>
      settled (handleDownload ev f (await_outcome run) s)
      \<and> effects (state_of (handleDownload ev f (await_outcome run) s)) =
        effects s @ [Fetch u, Abort]
      \<and> error (state_of (handleDownload ev f (await_outcome run) s)) =
        ''Download timeout. The video might be too large.''
      \<and> downloadingMap (state_of (handleDownload ev f (await_outcome run) s))
          (toStr (handleDownload_id f)) = Some False)
   \<and> (t < deadline \<longrightarrow>
        effects (state_of (handleDownload ev f (await_outcome (Responds t r b)) s)) =
          effects s @ [Fetch u, ClearTimeout]
          @ (case b of
               BodyDone tb n \<Rightarrow>
                 if ok r \<and> 0 < n
                 then [Click (titleOr (videoData s) @ ''.''
                              @ (if ftype f = Str ''audio'' then ''mp3'' else ''mp4'')) n]
                 else []
             | BodyBroken tb e \<Rightarrow> []
             | BodyNever \<Rightarrow> []))
   \<and> (t < deadline \<longrightarrow>
        settled (handleDownload ev f (await_outcome (Responds t r (BodyDone tb n))) s)
        \<and> error (state_of (handleDownload ev f (await_outcome (Responds t r (BodyDone tb n))) s))
            = (if \<not> ok r
               then ''Download failed: Server returned '' @ string_of_nat (status r) @ '': ''
                    @ statusText r
               else if n = 0 then ''Download failed: Received empty file from server''
               else [])
        \<and> error (state_of (handleDownload ev f (await_outcome (Responds t r (BodyDone tb n))) s))
            \<noteq> ''Download timeout. The video might be too large.'')
   \<and> (t < deadline \<and> ok r \<longrightarrow>
        \<not> settled (handleDownload ev f (await_outcome (Responds t r BodyNever)) s)
        \<and> downloadingMap (state_of (handleDownload ev f (await_outcome (Responds t r BodyNever)) s))
            (toStr (handleDownload_id f)) = Some True)"
  by (cases run; cases b)
    (auto simp: past_deadline_def fetch_settles_at_def await_outcome_def handleDownload_def
      handleDownload_begin_def handleDownload_settle_def handleDownload_try_def
      handleDownload_finally_def handleDownload_catch_def abortError_def newError_def Let_def)

text \<open>
  The amended claim at a server that never answers, at the slow payload and at the payload
  that never ends.
\<close>

theorem deadline_until_response_witness:
  "past_deadline (fetch_settles_at NoResponse)
   \<and> effects (state_of (handleDownload exEnv (withType ex137) (await_outcome NoResponse) exState))
       = [Fetch ''https://api.example.com/api/download?url=dQw4w9WgXcQ&format_id=137&title=video&type=video'',
          Abort]
   \<and> error (state_of (handleDownload exEnv (withType ex137) (await_outcome NoResponse) exState))
       = ''Download timeout. The video might be too large.''
   \<and> downloadingMap
        (state_of (handleDownload exEnv (withType ex137) (await_outcome NoResponse) exState))
        ''137'' = Some False
   \<and> effects (state_of (handleDownload exEnv (withType ex137) (await_outcome exSlowBody) exState))
       = [Fetch ''https://api.example.com/api/download?url=dQw4w9WgXcQ&format_id=137&title=video&type=video'',
          ClearTimeout, Click ''video.mp4'' 1000000]
   \<and> error (state_of (handleDownload exEnv (withType ex137) (await_outcome exSlowBody) exState))
       = []
   \<and> \<not> settled (handleDownload exEnv (withType ex137) (await_outcome exStalled) exState)"
proof -
  have h: "past_deadline (fetch_settles_at NoResponse)"
    by (simp add: past_deadline_def fetch_settles_at_def)
  have k: "(1000::nat) < deadline" and o: "ok exOK" and a: "ftype (withType ex137) \<noteq> Str ''audio''"
    and v: "titleOr (videoData exState) = ''video''"
    by (simp_all add: deadline_def ok_def titleOr_def classify_defs ex_defs)
  note inst = deadline_until_response [OF ex137_url, where run = NoResponse and t = 1000
      and r = exOK and b = "BodyDone 500000 1000000" and tb = 500000 and n = 1000000]
  from inst h
  have 1: "effects (state_of (handleDownload exEnv (withType ex137) (await_outcome NoResponse)
        exState))
       = [Fetch ''https://api.example.com/api/download?url=dQw4w9WgXcQ&format_id=137&title=video&type=video'',
          Abort]
   \<and> error (state_of (handleDownload exEnv (withType ex137) (await_outcome NoResponse) exState))
       = ''Download timeout. The video might be too large.''
   \<and> downloadingMap
        (state_of (handleDownload exEnv (withType ex137) (await_outcome NoResponse) exState))
        ''137'' = Some False"
    by (simp add: ex137_key) (simp add: exState_def)
  from inst k o a v
  have 2: "effects (state_of (handleDownload exEnv (withType ex137) (await_outcome exSlowBody)
        exState))
       = [Fetch ''https://api.example.com/api/download?url=dQw4w9WgXcQ&format_id=137&title=video&type=video'',
          ClearTimeout, Click ''video.mp4'' 1000000]
   \<and> error (state_of (handleDownload exEnv (withType ex137) (await_outcome exSlowBody) exState))
       = []"
    by (simp add: exSlowBody_def) (simp add: exState_def)
  from inst k o
  have 3: "\<not> settled (handleDownload exEnv (withType ex137) (await_outcome exStalled) exState)"
    by (simp add: exStalled_def)
  from h 1 2 3 show ?thesis by simp
qed

text \<open>
  Claim C3 as stated fails. For an entry without \<^verbatim>\<open>format_id\<close> the key of
  \<^verbatim>\<open>handleDownload\<close> is made of type, extension and quality label joined by
  \<^verbatim>\<open>-\<close>, the key of \<^verbatim>\<open>keyOf\<close> of these three, the bitrate and the height joined by
  \<^verbatim>\<open>|\<close>.
\<close>

theorem handleDownload_id_counterexample:
  "handleDownload_id exNoId = Str ''video-mp4-720p''
   \<and> keyOf exNoId = Str ''video|mp4|720p||720''"
  by (simp add: handleDownload_id_def keyOf_def nullish_def js_or_def ex_defs string_of_int_def
      string_of_nat.simps)

text \<open>
  Claim C3, amended: the key of \<^verbatim>\<open>handleDownload\<close> equals the key of \<^verbatim>\<open>keyOf\<close>
  exactly for the entries whose \<^verbatim>\<open>format_id\<close> is truthy, where both are the
  \<^verbatim>\<open>format_id\<close>. For every other entry the key of \<^verbatim>\<open>handleDownload\<close> is the
  composite of type, extension and quality label (or the empty string), without bitrate
  and height.
\<close>

theorem handleDownload_id_keyOf:
  "(handleDownload_id f = keyOf f) = truthy (format_id f)
   \<and> (truthy (format_id f) \<longrightarrow> handleDownload_id f = format_id f)
   \<and> (\<not> truthy (format_id f) \<longrightarrow>
        handleDownload_id f =
          Str (toStr (ftype f) @ ''-'' @ toStr (ext f) @ ''-''
               @ toStr (js_or (qualityLabel f) (Str []))))"
  by (cases "format_id f") (auto simp: keyOf_def nullish_def handleDownload_id_def js_or_def)

text \<open>The amended claim at an entry with an identifier and at one without.\<close>

theorem handleDownload_id_keyOf_witness:
  "truthy (format_id ex137) \<and> handleDownload_id ex137 = keyOf ex137
   \<and> handleDownload_id ex137 = Str ''137''
   \<and> \<not> truthy (format_id exNoId) \<and> handleDownload_id exNoId \<noteq> keyOf exNoId
   \<and> handleDownload_id exNoId = Str ''video-mp4-720p''"
proof -
  have t: "truthy (format_id ex137)" and n: "\<not> truthy (format_id exNoId)"
    by (simp_all add: ex_defs)
  from handleDownload_id_keyOf [of ex137] t
  have 1: "handleDownload_id ex137 = keyOf ex137"
    by blast
  from handleDownload_id_keyOf [of ex137] t
  have "handleDownload_id ex137 = format_id ex137"
    by blast
  then have 2: "handleDownload_id ex137 = Str ''137''"
    by (simp add: ex_defs)
  from handleDownload_id_keyOf [of exNoId] n
  have 3: "handleDownload_id exNoId \<noteq> keyOf exNoId"
    by blast
  from handleDownload_id_keyOf [of exNoId] n
  have "handleDownload_id exNoId =
          Str (toStr (ftype exNoId) @ ''-'' @ toStr (ext exNoId) @ ''-''
               @ toStr (js_or (qualityLabel exNoId) (Str [])))"
    by blast
  then have 4: "handleDownload_id exNoId = Str ''video-mp4-720p''"
    by (simp add: ex_defs js_or_def)
  from t 1 2 n 3 4 show ?thesis by (intro conjI)
qed

section \<open>Claims about \<^verbatim>\<open>normalizeFormats\<close>\<close>

text \<open>
  Claim C2 as stated fails. The tests of lines 41 and 42 include the declared type: an
  entry declared \<^verbatim>\<open>"video"\<close> that carries a bitrate and no height or video codec is
  classified as video, where the marker sets of the claim make it audio.
\<close>

theorem withType_counterexample:
  "ftype (withType exDeclaredVideo) = Str ''video''
   \<and> classify_by_markers exDeclaredVideo = Str ''audio''"
  by (simp add: classify_defs classify_by_markers_def videoMarkers_def audioMarkers_def ex_defs)

text \<open>
  Claim C2, amended: an entry declared \<^verbatim>\<open>"video"\<close> or \<^verbatim>\<open>"audio"\<close> keeps its declared
  type whatever markers it carries. Every other entry is classified as the claim says:
  video with video markers and no audio markers, audio with audio markers and no video
  markers, and otherwise its declared type, or video when that is missing or falsy. No
  other field changes.
\<close>

theorem withType_declared_type_first:
  "withType f =
     f\<lparr>ftype := (if ftype f = Str ''video'' \<or> ftype f = Str ''audio'' then ftype f
                 else classify_by_markers f)\<rparr>"
  by (auto simp: classify_defs classify_by_markers_def videoMarkers_def audioMarkers_def)

text \<open>The amended claim at a declared entry and at an undeclared one with a bitrate.\<close>

theorem withType_declared_type_first_witness:
  "withType exDeclaredVideo = exDeclaredVideo\<lparr>ftype := Str ''video''\<rparr>
   \<and> withType ex140 = ex140\<lparr>ftype := Str ''audio''\<rparr>"
  using withType_declared_type_first [of exDeclaredVideo] withType_declared_type_first [of ex140]
  by (simp add: ex_defs classify_by_markers_def videoMarkers_def audioMarkers_def)

text \<open>
  Claim C4 as stated fails. An entry whose declared type is neither \<^verbatim>\<open>"video"\<close> nor
  \<^verbatim>\<open>"audio"\<close> and that has no marker keeps its declared type, survives, and is in
  neither sequence.
\<close>

theorem formats_partition_counterexample:
  "exImage \<in> set (normalizeFormats (Arr [exImage]))
   \<and> exImage \<notin> set (videoFormats (Arr [exImage]))
   \<and> exImage \<notin> set (audioFormats (Arr [exImage]))"
  by (simp add: videoFormats_def audioFormats_def normalizeFormats_def classify_defs ex_defs)

text \<open>
  Claim C4, amended: the two sequences are disjoint and without repetition, and a
  surviving entry is in the video sequence exactly when its classified type is
  \<^verbatim>\<open>"video"\<close> and in the audio sequence exactly when it is \<^verbatim>\<open>"audio"\<close>. So every
  surviving entry of one of these two types appears once in exactly one sequence, and a
  surviving entry of any other type in neither.
\<close>

theorem formats_partition_by_classified_type:
  "set (videoFormats raw) \<inter> set (audioFormats raw) = {}
   \<and> distinct (videoFormats raw) \<and> distinct (audioFormats raw)
   \<and> (\<forall>f \<in> set (normalizeFormats raw).
        (f \<in> set (videoFormats raw)) = (ftype f = Str ''video'')
        \<and> (f \<in> set (audioFormats raw)) = (ftype f = Str ''audio''))"
  using normalizeFormats_distinct [of raw] by (auto simp: videoFormats_def audioFormats_def)

text \<open>The amended claim at a list with a video, an audio and an image entry.\<close>

theorem formats_partition_by_classified_type_witness:
  "set (videoFormats (Arr [ex137, ex140, exImage]))
     \<inter> set (audioFormats (Arr [ex137, ex140, exImage])) = {}
   \<and> normalizeFormats (Arr [ex137, ex140, exImage]) = [withType ex137, withType ex140, exImage]
   \<and> videoFormats (Arr [ex137, ex140, exImage]) = [withType ex137]
   \<and> audioFormats (Arr [ex137, ex140, exImage]) = [withType ex140]"
proof -
  have v: "videoFormats (Arr [ex137, ex140, exImage]) = [withType ex137]"
    by (simp add: videoFormats_def ex_normalized_image) (simp add: classify_defs ex_defs)
  have a: "audioFormats (Arr [ex137, ex140, exImage]) = [withType ex140]"
    by (simp add: audioFormats_def ex_normalized_image) (simp add: classify_defs ex_defs)
  from formats_partition_by_classified_type [of "Arr [ex137, ex140, exImage]"]
  have d: "set (videoFormats (Arr [ex137, ex140, exImage]))
     \<inter> set (audioFormats (Arr [ex137, ex140, exImage])) = {}"
    by (rule conjunct1)
  from d ex_normalized_image v a show ?thesis by (intro conjI)
qed

text \<open>
  Claim C5: \<^verbatim>\<open>normalizeFormats\<close> keeps, in the order of the input, exactly the entries
  at the positions that no earlier position shares its key with (the keys are those of
  the classified entries): the first entry of each key stays and every later one goes. A
  value that is not an array gives the empty list. Hence no two surviving entries share a
  key, in the whole result and in each of the two sequences filtered from it.
\<close>

theorem normalizeFormats_first_seen_wins:
  "normalizeFormats (Arr xs) =
     nths (map withType xs)
       {i. i < length xs \<and> (\<forall>j<i. keyOf (withType (xs ! j)) \<noteq> keyOf (withType (xs ! i)))}
   \<and> normalizeFormats (Val v) = []
   \<and> distinct (map keyOf (normalizeFormats raw))
   \<and> distinct (map keyOf (videoFormats raw))
   \<and> distinct (map keyOf (audioFormats raw))"
proof -
  have "{i. i < length (map withType xs) \<and> keyOf (map withType xs ! i) \<notin> {}
           \<and> (\<forall>j<i. keyOf (map withType xs ! j) \<noteq> keyOf (map withType xs ! i))}
        = {i. i < length xs \<and> (\<forall>j<i. keyOf (withType (xs ! j)) \<noteq> keyOf (withType (xs ! i)))}"
    by auto
  then have first: "normalizeFormats (Arr xs) =
     nths (map withType xs)
       {i. i < length xs \<and> (\<forall>j<i. keyOf (withType (xs ! j)) \<noteq> keyOf (withType (xs ! i)))}"
    using filterSeen_nths [of "{}" "map withType xs"] by (simp add: normalizeFormats_def)
  have none: "normalizeFormats (Val v) = []"
    by (simp add: normalizeFormats_def)
  have whole: "distinct (map keyOf (normalizeFormats raw))"
    by (rule normalizeFormats_distinct_keys)
  have video: "distinct (map keyOf (videoFormats raw))"
    unfolding videoFormats_def using whole by (rule distinct_map_filter)
  have audio: "distinct (map keyOf (audioFormats raw))"
    unfolding audioFormats_def using whole by (rule distinct_map_filter)
  from first none whole video audio show ?thesis by simp
qed

text \<open>
  The claim at a list whose third entry repeats the identifier of the first: the first
  stays, the third goes.
\<close>

theorem normalizeFormats_first_seen_wins_witness:
  "normalizeFormats (Arr [ex137, ex140, ex137b]) =
     nths (map withType [ex137, ex140, ex137b])
       {i. i < length [ex137, ex140, ex137b]
           \<and> (\<forall>j<i. keyOf (withType ([ex137, ex140, ex137b] ! j))
                     \<noteq> keyOf (withType ([ex137, ex140, ex137b] ! i)))}
   \<and> normalizeFormats (Arr [ex137, ex140, ex137b]) = [withType ex137, withType ex140]
   \<and> distinct (map keyOf (videoFormats (Arr [ex137, ex140, ex137b])))"
proof -
  note inst = normalizeFormats_first_seen_wins
    [of "[ex137, ex140, ex137b]" Undefined "Arr [ex137, ex140, ex137b]"]
  from inst have a: "normalizeFormats (Arr [ex137, ex140, ex137b]) =
     nths (map withType [ex137, ex140, ex137b])
       {i. i < length [ex137, ex140, ex137b]
           \<and> (\<forall>j<i. keyOf (withType ([ex137, ex140, ex137b] ! j))
                     \<noteq> keyOf (withType ([ex137, ex140, ex137b] ! i)))}"
    by (rule conjunct1)
  from inst have c: "distinct (map keyOf (videoFormats (Arr [ex137, ex140, ex137b])))"
    by blast
  from a ex_normalized c show ?thesis by (intro conjI)
qed

section \<open>Claims about \<^verbatim>\<open>handleFetch\<close> and the messages\<close>

text \<open>
  Claim C6 is not what the code does. For the answer \<^verbatim>\<open>{error: "Video unavailable"}\<close>
  line 85 throws an error with that message, but the handler of lines 92 to 101 reads
  the message only to look for \<^verbatim>\<open>"Network Error"\<close>: the message shown is the general
  one, and the text of the server is lost. The metadata is the empty object.
\<close>

theorem handleFetch_drops_server_message:
  "handleFetch_try (Resolved (Some exUnavailable)) = Inl (newError ''Video unavailable'')
   \<and> error (handleFetch exEnv (Resolved (Some exUnavailable)) exState) =
     ''Failed to fetch video info. Please check the URL and try again.''
   \<and> videoData (handleFetch exEnv (Resolved (Some exUnavailable)) exState) = Some emptyInfo"
  by (simp add: ex_defs handleFetch_def handleFetch_try_def errorMessage_def newError_def
      trim_def whiteSpace_def)

text \<open>
  Claim C10: for a request that \<^verbatim>\<open>handleFetch\<close> sends (the address is not blank) and an
  answer that is an object, a truthy \<^verbatim>\<open>formats\<close> field makes the call store the answer
  and show no message, whatever the \<^verbatim>\<open>error\<close> field holds; a message is shown, and
  the metadata replaced by the empty object, exactly when \<^verbatim>\<open>formats\<close> is missing or
  falsy.
\<close>

theorem handleFetch_formats_first:
  "trim (url s) \<noteq> [] \<Longrightarrow>
     (truthy_field (formats d) \<longrightarrow>
        videoData (handleFetch ev (Resolved (Some d)) s) = Some d
        \<and> error (handleFetch ev (Resolved (Some d)) s) = [])
     \<and> ((error (handleFetch ev (Resolved (Some d)) s) \<noteq> []) = (\<not> truthy_field (formats d)))
     \<and> ((videoData (handleFetch ev (Resolved (Some d)) s) = Some emptyInfo
          \<and> error (handleFetch ev (Resolved (Some d)) s) \<noteq> []) = (\<not> truthy_field (formats d)))"
  by (auto simp: handleFetch_def handleFetch_try_def errorMessage_nonempty Let_def)

text \<open>The claim at an answer that carries both a list of formats and an error text.\<close>

theorem handleFetch_formats_first_witness:
  "trim (url exState) \<noteq> [] \<and> truthy_field (formats exBoth) \<and> truthy (data_error exBoth)
   \<and> videoData (handleFetch exEnv (Resolved (Some exBoth)) exState) = Some exBoth
   \<and> error (handleFetch exEnv (Resolved (Some exBoth)) exState) = []"
proof -
  have t: "truthy_field (formats exBoth)" and e: "truthy (data_error exBoth)"
    by (simp_all add: exBoth_def emptyInfo_def)
  from handleFetch_formats_first [OF exState_url, of exBoth exEnv] t
  have "videoData (handleFetch exEnv (Resolved (Some exBoth)) exState) = Some exBoth
        \<and> error (handleFetch exEnv (Resolved (Some exBoth)) exState) = []"
    by blast
  with exState_url t e show ?thesis by simp
qed

text \<open>
  Claim C8 as stated fails. The message of a download that timed out is a text of its own
  and does not begin with \<^verbatim>\<open>Download failed:\<close>.
\<close>

theorem download_timeout_message_counterexample:
  "error (state_of (handleDownload exEnv (withType ex137) TimerFired exState)) =
     ''Download timeout. The video might be too large.''
   \<and> \<not> prefix ''Download failed:''
        (error (state_of (handleDownload exEnv (withType ex137) TimerFired exState)))"
  by (simp add: ex_defs download_defs classify_defs)

text \<open>
  Claim C8, amended: every failure of \<^verbatim>\<open>handleFetch\<close> shows
  \<^verbatim>\<open>Failed to fetch video info.\<close> followed by the text of its cause, and every failure
  of \<^verbatim>\<open>handleDownload\<close> whose error is not an \<^verbatim>\<open>AbortError\<close> (an error thrown
  after \<^verbatim>\<open>fetch\<close> was called, or thrown while the address was built) shows
  \<^verbatim>\<open>Download failed:\<close> followed by the error's message. The timeout of a download (an
  \<^verbatim>\<open>AbortError\<close>) shows the fixed text
  \<^verbatim>\<open>Download timeout. The video might be too large.\<close> instead.
\<close>

theorem failure_message_prefixes:
  "(trim (url s) \<noteq> [] \<and> handleFetch_try out = Inl e \<longrightarrow>
      error (handleFetch ev out s) = errorMessage e
      \<and> prefix ''Failed to fetch video info. '' (errorMessage e))
   \<and> (snd (handleDownload_try c f dout t) = Thrown e' \<and> err_name e' \<noteq> ''AbortError'' \<longrightarrow>
        settled (handleDownload_settle c f dout t)
        \<and> error (state_of (handleDownload_settle c f dout t)) =
            ''Download failed: '' @ err_message e')
   \<and> (snd (handleDownload_try c f dout t) = Thrown e' \<and> err_name e' = ''AbortError'' \<longrightarrow>
        settled (handleDownload_settle c f dout t)
        \<and> error (state_of (handleDownload_settle c f dout t)) =
            ''Download timeout. The video might be too large.'')
   \<and> (downloadUrl ev f s = Inl e' \<longrightarrow>
        settled (handleDownload ev f dout s)
        \<and> error (state_of (handleDownload ev f dout s)) = ''Download failed: '' @ err_message e')"
proof -
  have uri: "downloadUrl ev f s = Inl e' \<Longrightarrow> err_name e' \<noteq> ''AbortError''"
    by (auto dest: downloadUrl_throws simp: uriError_def)
  show ?thesis
    using uri
    by (auto simp: handleFetch_def errorMessage_def handleDownload_settle_def
        handleDownload_def handleDownload_begin_def handleDownload_finally_def
        handleDownload_catch_def Let_def split: prod.splits)
qed

text \<open>
  The amended claim at a network error of the fetch, a status 404 of the download, a
  timeout of the download and an address that cannot be encoded.
\<close>

theorem failure_message_prefixes_witness:
  "error (handleFetch exEnv (RejectedWith (newError ''Network Error'')) exState) =
     ''Failed to fetch video info. Cannot connect to server. Check your internet connection.''
   \<and> error (state_of (handleDownload_settle exState (withType ex137)
        (FetchResolved exNotFound (BlobResolved 0)) exState)) =
     ''Download failed: Server returned 404: Not Found''
   \<and> error (state_of (handleDownload_settle exState (withType ex137) TimerFired exState)) =
     ''Download timeout. The video might be too large.''
   \<and> error (state_of (handleDownload exEnv (withType ex137) TimerFired exBadUrl)) =
     ''Download failed: URI malformed''"
proof -
  have a: "handleFetch_try (RejectedWith (newError ''Network Error''))
      = Inl (newError ''Network Error'')"
    by (simp add: handleFetch_try_def)
  have b: "snd (handleDownload_try exState (withType ex137)
        (FetchResolved exNotFound (BlobResolved 0)) exState)
      = Thrown (newError ''Server returned 404: Not Found'')"
    by (simp add: handleDownload_try_def ok_def exNotFound_def string_of_nat.simps)
  have c: "snd (handleDownload_try exState (withType ex137) TimerFired exState)
      = Thrown abortError"
    by (simp add: handleDownload_try_def)
  note p = failure_message_prefixes
  from p [where s = exState and out = "RejectedWith (newError ''Network Error'')"
      and e = "newError ''Network Error''" and ev = exEnv] exState_url a
  have 1: "error (handleFetch exEnv (RejectedWith (newError ''Network Error'')) exState) =
     ''Failed to fetch video info. Cannot connect to server. Check your internet connection.''"
    by (simp add: errorMessage_def newError_def)
  from p [where c = exState and f = "withType ex137"
      and dout = "FetchResolved exNotFound (BlobResolved 0)"
      and t = exState and e' = "newError ''Server returned 404: Not Found''"] b
  have 2: "error (state_of (handleDownload_settle exState (withType ex137)
        (FetchResolved exNotFound (BlobResolved 0)) exState)) =
     ''Download failed: Server returned 404: Not Found''"
    by (simp add: newError_def)
  from p [where c = exState and f = "withType ex137" and dout = TimerFired and t = exState
      and e' = abortError] c
  have 3: "error (state_of (handleDownload_settle exState (withType ex137) TimerFired exState)) =
     ''Download timeout. The video might be too large.''"
    by (simp add: abortError_def)
  from p [where ev = exEnv and f = "withType ex137" and s = exBadUrl and e' = uriError
      and dout = TimerFired] exBad_url
  have 4: "error (state_of (handleDownload exEnv (withType ex137) TimerFired exBadUrl)) =
     ''Download failed: URI malformed''"
    by (simp add: uriError_def)
  from 1 2 3 4 show ?thesis by (intro conjI)
qed

end
